theory Spec2Isabelle
  imports Main "HOL-Library.Sublist" "HOL-Library.Multiset"
begin

section \<open>Python values\<close>

text \<open>
  A Python \<open>str\<close> is a sequence of Unicode code points, so it is modelled as a list of
  natural numbers (\<open>len\<close> is \<open>length\<close>, \<open>+\<close> is \<open>@\<close>). The literals of the sources are
  written as their code points; the comments give the literal in ASCII where it has one.
\<close>

type_synonym pystr = "nat list"

text \<open>A literal made of ASCII characters, as a \<open>str\<close>.\<close>

definition ascii :: "string \<Rightarrow> pystr" where
  "ascii s = map of_char s"

text \<open>\<open>sub in text\<close> on strings: \<open>sub\<close> occurs in \<open>text\<close> as a contiguous substring.\<close>

fun py_in :: "'a list \<Rightarrow> 'a list \<Rightarrow> bool" where
  "py_in sub [] = (sub = [])"
| "py_in sub (c # cs) = (prefix sub (c # cs) \<or> py_in sub cs)"

text \<open>\<open>d.get(k, default)\<close>, the looked-up entry being given as an option.\<close>

definition dict_get :: "'a \<Rightarrow> 'a option \<Rightarrow> 'a" where
  "dict_get dflt entry = (case entry of None \<Rightarrow> dflt | Some v \<Rightarrow> v)"

text \<open>\<open>xs[:n]\<close>: a negative bound counts from the end.\<close>

definition slice_to :: "'a list \<Rightarrow> int \<Rightarrow> 'a list" where
  "slice_to xs n = (if n < 0 then take (length xs - nat (- n)) xs else take (nat n) xs)"

text \<open>
  \<open>sorted(xs, key=key, reverse=True)\<close>, the way CPython does it: the list is reversed,
  sorted by a stable ascending sort, and reversed again.
\<close>

definition py_sorted_reverse :: "('a \<Rightarrow> int) \<Rightarrow> 'a list \<Rightarrow> 'a list" where
  "py_sorted_reverse key xs = rev (sort_key key (rev xs))"

text \<open>The exceptions the modelled code can raise.\<close>

datatype py_error = KeyError string | FileNotFoundError | YAMLError

section \<open>The digest (news\_digest.py)\<close>

datatype NewsCategory =
  POLITICS | ECONOMY | SOCIETY | TECHNOLOGY | CULTURE | SPORTS | INTERNATIONAL
  | HEALTH | EDUCATION | ENVIRONMENT

text \<open>Iterating over the enumeration visits its members in definition order.\<close>

definition all_categories :: "NewsCategory list" where
  "all_categories =
     [POLITICS, ECONOMY, SOCIETY, TECHNOLOGY, CULTURE, SPORTS, INTERNATIONAL,
      HEALTH, EDUCATION, ENVIRONMENT]"

text \<open>The \<open>value\<close> of each member: its two-character Chinese label.\<close>

fun category_value :: "NewsCategory \<Rightarrow> pystr" where
  "category_value POLITICS = [25919, 27835]"
| "category_value ECONOMY = [32463, 27982]"
| "category_value SOCIETY = [31038, 20250]"
| "category_value TECHNOLOGY = [31185, 25216]"
| "category_value CULTURE = [25991, 21270]"
| "category_value SPORTS = [20307, 32946]"
| "category_value INTERNATIONAL = [22269, 38469]"
| "category_value HEALTH = [20581, 24247]"
| "category_value EDUCATION = [25945, 32946]"
| "category_value ENVIRONMENT = [29615, 22659]"

record NewsItem =
  title :: pystr
  summary :: pystr
  category :: NewsCategory
  source :: pystr
  url :: pystr
  publish_time :: pystr
  importance :: int

text \<open>
  A \<open>NewsDigest\<close> object: the list of items and the date string computed when the
  object is created (the clock is outside the model, so the string is a field).
\<close>

record NewsDigest =
  news_items :: "NewsItem list"
  today :: pystr

definition NewsDigest_init :: "pystr \<Rightarrow> NewsDigest" where
  "NewsDigest_init date = \<lparr>news_items = [], today = date\<rparr>"

text \<open>
  \<open>add_news\<close>: the keyword arguments \<open>url\<close>, \<open>publish_time\<close> and \<open>importance\<close> may be
  omitted (\<open>None\<close> here) and then take their defaults. The method mutates the digest;
  the model returns the digest after the call.
\<close>

definition add_news ::
  "NewsDigest \<Rightarrow> pystr \<Rightarrow> pystr \<Rightarrow> NewsCategory \<Rightarrow> pystr \<Rightarrow> pystr option \<Rightarrow> pystr option
    \<Rightarrow> int option \<Rightarrow> NewsDigest" where
  "add_news d t s c src u p i =
     (let news_item = \<lparr>title = t, summary = s, category = c, source = src,
                       url = dict_get [] u, publish_time = dict_get [] p,
                       importance = dict_get 1 i\<rparr>
      in d\<lparr>news_items := news_items d @ [news_item]\<rparr>)"

definition get_news_by_category :: "NewsDigest \<Rightarrow> NewsCategory \<Rightarrow> NewsItem list" where
  "get_news_by_category d c = filter (\<lambda>item. category item = c) (news_items d)"

text \<open>\<open>get_top_news\<close>; a caller that omits the limit passes the default, 5.\<close>

definition get_top_news :: "NewsDigest \<Rightarrow> int \<Rightarrow> NewsItem list" where
  "get_top_news d limit =
     (let sorted_news = py_sorted_reverse importance (news_items d)
      in slice_to sorted_news limit)"

text \<open>
  The order the specification asks of \<open>top(n)\<close>, in its own words: a stable sort,
  descending by importance. A stable ascending sort on the negated key is exactly that.
\<close>

definition stable_sort_desc :: "NewsItem list \<Rightarrow> NewsItem list" where
  "stable_sort_desc xs = sort_key (\<lambda>item. - importance item) xs"

text \<open>Decimal rendering of a count, as an f-string does it for an \<open>int\<close> that is not negative.\<close>

function str_of_nat :: "nat \<Rightarrow> pystr" where
  "str_of_nat n = (if n < 10 then [48 + n] else str_of_nat (n div 10) @ [48 + n mod 10])"
  by pat_completeness auto
termination
  by (relation "measure id") auto

declare str_of_nat.simps [simp del]

text \<open>The fixed pieces of the report text.\<close>

definition no_news_message :: pystr where
  "no_news_message = [20170, 26085, 26242, 26080, 26032, 38395]"

definition report_header :: pystr where
  \<comment> \<open>newspaper emoji, the Chinese title, then \<open>" - "\<close>\<close>
  "report_header =
     [128240, 32, 20013, 22269, 20170, 26085, 26032, 38395, 26089, 25253, 32, 45, 32]"

definition top_news_header :: pystr where
  \<comment> \<open>fire emoji, the Chinese for "headlines", a newline\<close>
  "top_news_header = [128293, 32, 22836, 26465, 26032, 38395, 10]"

definition category_prefix :: pystr where
  \<comment> \<open>clipboard emoji and a space\<close>
  "category_prefix = [128203, 32]"

definition source_prefix :: pystr where
  "source_prefix = [32, 32, 32, 26469, 28304, 65306]"

definition stats_prefix :: pystr where
  "stats_prefix = [128202, 32, 20170, 26085, 20849, 25910, 38598, 32]"

definition stats_suffix :: pystr where
  "stats_suffix = [32, 26465, 26032, 38395, 10]"

definition time_prefix :: pystr where
  "time_prefix = [9200, 32, 29983, 25104, 26102, 38388, 65306]"

text \<open>
  The body of the two \<open>for i, news in enumerate(..., 1)\<close> loops of \<open>generate_digest\<close>:
  three lines per item, numbered from \<open>i\<close>.
\<close>

fun render_entries :: "nat \<Rightarrow> NewsItem list \<Rightarrow> pystr" where
  "render_entries i [] = []"
| "render_entries i (news # rest) =
     str_of_nat i @ [46, 32] @ title news @ [10]
     @ [32, 32, 32] @ summary news @ [10]
     @ source_prefix @ source news @ [10, 10]
     @ render_entries (Suc i) rest"

definition category_section :: "NewsDigest \<Rightarrow> NewsCategory \<Rightarrow> pystr \<Rightarrow> pystr" where
  "category_section d c digest =
     (let category_news = get_news_by_category d c
      in if category_news \<noteq> [] then
           digest @ category_prefix @ category_value c @ [10]
           @ replicate 20 45 @ [10]
           @ render_entries 1 category_news
         else digest)"

text \<open>
  \<open>generate_digest\<close>. The time stamp of the last line comes from the clock, so the
  formatted string is an argument (\<open>now\<close>).
\<close>

definition generate_digest :: "NewsDigest \<Rightarrow> pystr \<Rightarrow> pystr" where
  "generate_digest d now =
     (if news_items d = [] then no_news_message
      else
        let digest = report_header @ today d @ [10];
            digest = digest @ replicate 50 61 @ [10, 10];
            top_news = get_top_news d 3;
            digest = (if top_news \<noteq> [] then
                        digest @ top_news_header @ replicate 20 45 @ [10]
                        @ render_entries 1 top_news
                      else digest);
            digest = fold (category_section d) all_categories digest;
            digest = digest @ replicate 50 61 @ [10];
            digest = digest @ stats_prefix @ str_of_nat (length (news_items d)) @ stats_suffix;
            digest = digest @ time_prefix @ now
        in digest)"

section \<open>The configuration (news\_manager.py)\<close>

text \<open>
  The configuration is the nested dictionary that the YAML file parses to. Each key the
  code reads is a field; \<open>None\<close> stands for an absent key, which is what \<open>.get\<close> with a
  default sees.
\<close>

record system_cfg =
  fetch_interval :: "int option"
  max_news_count :: "int option"
  output_format :: "pystr list option"
  auto_categorize_flag :: "bool option"
  auto_importance_flag :: "bool option"

record source_cfg =
  src_name :: pystr
  src_url :: pystr
  src_enabled :: "bool option"
  src_category :: "pystr option"

record news_sources_cfg =
  rss :: "(string \<times> source_cfg) list option"
  web :: "(string \<times> source_cfg) list option"

record category_cfg =
  cat_keywords :: "pystr list option"

record importance_cfg =
  critical_keywords :: "pystr list option"
  authoritative_sources :: "pystr list option"
  important_keywords :: "pystr list option"
  title_length_threshold :: "int option"

record filters_cfg =
  title_blacklist :: "pystr list option"
  source_blacklist :: "pystr list option"
  min_title_length :: "int option"
  max_title_length :: "int option"
  min_summary_length :: "int option"
  max_summary_length :: "int option"

text \<open>
  The \<open>categories\<close> section is a dictionary from a category label to its settings;
  \<open>.items()\<close> visits it in the order of the file, so it is an association list.
\<close>

record config =
  system_section :: "system_cfg option"
  news_sources :: "news_sources_cfg option"
  categories :: "(pystr \<times> category_cfg) list option"
  importance_section :: "importance_cfg option"
  filters :: "filters_cfg option"

text \<open>The empty dictionary \<open>{}\<close> at each of these types.\<close>

definition no_system :: system_cfg where
  "no_system = \<lparr>fetch_interval = None, max_news_count = None, output_format = None,
     auto_categorize_flag = None, auto_importance_flag = None\<rparr>"

definition no_importance :: importance_cfg where
  "no_importance = \<lparr>critical_keywords = None, authoritative_sources = None,
     important_keywords = None, title_length_threshold = None\<rparr>"

definition no_filters :: filters_cfg where
  "no_filters = \<lparr>title_blacklist = None, source_blacklist = None, min_title_length = None,
     max_title_length = None, min_summary_length = None, max_summary_length = None\<rparr>"

definition get_default_config :: config where
  "get_default_config =
     \<lparr>system_section = Some \<lparr>fetch_interval = Some 3600, max_news_count = Some 50,
         output_format = Some [[116, 120, 116], [106, 115, 111, 110]],
         auto_categorize_flag = Some True, auto_importance_flag = Some True\<rparr>,
      news_sources = Some \<lparr>rss = Some [(''people_politics'',
         \<lparr>src_name = [20154, 27665, 32593, 25919, 27835],
          src_url = [104, 116, 116, 112, 58, 47, 47, 119, 119, 119, 46, 112, 101, 111, 112,
                     108, 101, 46, 99, 111, 109, 46, 99, 110, 47, 114, 115, 115, 47, 112,
                     111, 108, 105, 116, 105, 99, 115, 46, 120, 109, 108],
          src_enabled = Some True, src_category = Some [25919, 27835]\<rparr>)],
         web = None\<rparr>,
      categories = None, importance_section = None, filters = None\<rparr>"

subsection \<open>Loading\<close>

text \<open>
  What \<open>load_config\<close> finds at the configured path: no file, a file that is not a YAML
  document, or a document. \<open>open\<close> raises \<open>FileNotFoundError\<close> on the first,
  \<open>yaml.safe_load\<close> raises a \<open>YAMLError\<close> on the second.
\<close>

datatype 'c config_file = Missing | Malformed | Document 'c

definition open_file :: "'c config_file \<Rightarrow> py_error + 'c config_file" where
  "open_file f = (case f of Missing \<Rightarrow> Inl FileNotFoundError | _ \<Rightarrow> Inr f)"

definition safe_load :: "'c config_file \<Rightarrow> py_error + 'c" where
  "safe_load f =
     (case f of Document c \<Rightarrow> Inr c | Malformed \<Rightarrow> Inl YAMLError
      | Missing \<Rightarrow> Inl FileNotFoundError)"

text \<open>
  The body shared by the loaders: \<open>try: with open(...) as f: return yaml.safe_load(f)\<close>
  with the single handler \<open>except FileNotFoundError\<close>, which returns the defaults.
  Any other exception leaves the function.
\<close>

definition load_or_default :: "'c \<Rightarrow> 'c config_file \<Rightarrow> py_error + 'c" where
  "load_or_default dflt f =
     (case (case open_file f of Inl e \<Rightarrow> Inl e | Inr h \<Rightarrow> safe_load h) of
        Inl FileNotFoundError \<Rightarrow> Inr dflt
      | Inl e \<Rightarrow> Inl e
      | Inr c \<Rightarrow> Inr c)"

definition load_config :: "config config_file \<Rightarrow> py_error + config" where
  "load_config f = load_or_default get_default_config f"

text \<open>\<open>XueqiuCommentAnalyzer._load_config\<close> and its built-in defaults.\<close>

record xueqiu_config =
  api_key :: "pystr option"
  max_comments :: "int option"
  timeout :: "int option"
  retry_times :: "int option"

definition xueqiu_default_config :: xueqiu_config where
  "xueqiu_default_config =
     \<lparr>api_key = Some [], max_comments = Some 1000, timeout = Some 30, retry_times = Some 3\<rparr>"

definition xueqiu_load_config :: "xueqiu_config config_file \<Rightarrow> py_error + xueqiu_config" where
  "xueqiu_load_config f = load_or_default xueqiu_default_config f"

section \<open>Filtering, classifying and scoring (news\_manager.py)\<close>

text \<open>
  \<open>str.lower\<close> is Python's Unicode lower-casing. The functions that call it take it as
  the argument \<open>lw\<close>, so what is proved of them holds for the real one; \<open>ascii_lower\<close>
  is what it does on text made of ASCII and of characters without case (Chinese), and
  is used to run the functions on such text.
\<close>

definition ascii_lower :: "pystr \<Rightarrow> pystr" where
  "ascii_lower s = map (\<lambda>c. if 65 \<le> c \<and> c \<le> 90 then c + 32 else c) s"

text \<open>A raw item is a dictionary from field names to strings.\<close>

type_synonym raw_item = "string \<rightharpoonup> pystr"

text \<open>\<open>news[key]\<close>: raises \<open>KeyError\<close> when the key is absent.\<close>

definition getitem :: "raw_item \<Rightarrow> string \<Rightarrow> py_error + pystr" where
  "getitem news key = (case news key of None \<Rightarrow> Inl (KeyError key) | Some v \<Rightarrow> Inr v)"

text \<open>
  \<open>any(keyword in news[key] for keyword in blacklist)\<close>: the subscript is evaluated
  once per keyword, so an empty blacklist never touches the item.
\<close>

fun any_in_item :: "pystr list \<Rightarrow> raw_item \<Rightarrow> string \<Rightarrow> py_error + bool" where
  "any_in_item [] news key = Inr False"
| "any_in_item (keyword # rest) news key =
     (case getitem news key of
        Inl e \<Rightarrow> Inl e
      | Inr v \<Rightarrow> if py_in keyword v then Inr True else any_in_item rest news key)"

definition filter_news :: "config \<Rightarrow> raw_item \<Rightarrow> py_error + bool" where
  "filter_news cfg news =
     (let fs = dict_get no_filters (filters cfg) in
      case any_in_item (dict_get [] (title_blacklist fs)) news ''title'' of
        Inl e \<Rightarrow> Inl e
      | Inr True \<Rightarrow> Inr False
      | Inr False \<Rightarrow>
          if list_ex (\<lambda>keyword. py_in keyword (dict_get [] (news ''source'')))
               (dict_get [] (source_blacklist fs))
          then Inr False
          else
            (case getitem news ''title'' of
               Inl e \<Rightarrow> Inl e
             | Inr t \<Rightarrow>
                 if \<not> (dict_get 5 (min_title_length fs) \<le> int (length t)
                       \<and> int (length t) \<le> dict_get 100 (max_title_length fs))
                 then Inr False
                 else
                   (case getitem news ''summary'' of
                      Inl e \<Rightarrow> Inl e
                    | Inr s \<Rightarrow>
                        if \<not> (dict_get 10 (min_summary_length fs) \<le> int (length s)
                              \<and> int (length s) \<le> dict_get 500 (max_summary_length fs))
                        then Inr False
                        else Inr True)))"

text \<open>
  The loop of \<open>auto_categorize\<close> over \<open>categories_config.items()\<close>. A category whose
  keywords match but whose label is the value of no enumeration member returns nothing,
  and the loop goes on.
\<close>

fun categorize_loop :: "pystr \<Rightarrow> (pystr \<times> category_cfg) list \<Rightarrow> NewsCategory" where
  "categorize_loop text [] = SOCIETY"
| "categorize_loop text ((category_name, cc) # rest) =
     (if list_ex (\<lambda>keyword. py_in keyword text) (dict_get [] (cat_keywords cc)) then
        (case find (\<lambda>category_enum. category_value category_enum = category_name)
                all_categories of
           Some category_enum \<Rightarrow> category_enum
         | None \<Rightarrow> categorize_loop text rest)
      else categorize_loop text rest)"

definition auto_categorize :: "(pystr \<Rightarrow> pystr) \<Rightarrow> config \<Rightarrow> pystr \<Rightarrow> pystr \<Rightarrow> NewsCategory" where
  "auto_categorize lw cfg t s =
     (if \<not> dict_get True (auto_categorize_flag (dict_get no_system (system_section cfg)))
      then SOCIETY
      else categorize_loop (lw (t @ [32] @ s)) (dict_get [] (categories cfg)))"

definition determine_importance ::
  "(pystr \<Rightarrow> pystr) \<Rightarrow> config \<Rightarrow> pystr \<Rightarrow> pystr \<Rightarrow> pystr \<Rightarrow> int" where
  "determine_importance lw cfg t s src =
     (if \<not> dict_get True (auto_importance_flag (dict_get no_system (system_section cfg)))
      then 3
      else
        let importance_config = dict_get no_importance (importance_section cfg);
            text = lw (t @ [32] @ s)
        in if list_ex (\<lambda>keyword. py_in keyword text)
                (dict_get [] (critical_keywords importance_config)) then 5
           else if list_ex (\<lambda>auth_source. py_in src auth_source)
                (dict_get [] (authoritative_sources importance_config)) then 4
           else if list_ex (\<lambda>keyword. py_in keyword text)
                (dict_get [] (important_keywords importance_config)) then 3
           else if int (length t) > dict_get 20 (title_length_threshold importance_config)
           then 3
           else 2)"

text \<open>
  \<open>process_news_list\<close>: every item that passes the filter is classified, scored and
  added; an exception raised for one item ends the loop.
\<close>

fun process_news_list ::
  "(pystr \<Rightarrow> pystr) \<Rightarrow> config \<Rightarrow> NewsDigest \<Rightarrow> raw_item list \<Rightarrow> pystr
    \<Rightarrow> py_error + NewsDigest" where
  "process_news_list lw cfg d [] source_name = Inr d"
| "process_news_list lw cfg d (news # rest) source_name =
     (case filter_news cfg news of
        Inl e \<Rightarrow> Inl e
      | Inr False \<Rightarrow> process_news_list lw cfg d rest source_name
      | Inr True \<Rightarrow>
          (case getitem news ''title'' of
             Inl e \<Rightarrow> Inl e
           | Inr t \<Rightarrow>
               (case getitem news ''summary'' of
                  Inl e \<Rightarrow> Inl e
                | Inr s \<Rightarrow>
                    process_news_list lw cfg
                      (add_news d t s (auto_categorize lw cfg t s) source_name
                         (Some (dict_get [] (news ''url'')))
                         (Some (dict_get [] (news ''publish_time'')))
                         (Some (determine_importance lw cfg t s source_name)))
                      rest source_name)))"

section \<open>The aggregator's classifier and scorer (news\_crawler.py)\<close>

text \<open>The keyword lists written into \<open>categorize_news\<close>, in the order of the source.\<close>

definition politics_keywords :: "pystr list" where
  "politics_keywords =
     [[22269, 21153, 38498], [25919, 27835, 23616], [20013, 22830], [25919, 24220],
      [25919, 31574], [27861, 35268], [20250, 35758], [39046, 23548, 20154],
      [20064, 36817, 24179], [26446, 20811, 24378]]"

definition economy_keywords :: "pystr list" where
  \<comment> \<open>the sixth keyword is \<open>GDP\<close>\<close>
  "economy_keywords =
     [[32463, 27982], [37329, 34701], [32929, 24066], [38134, 34892], [22830, 34892],
      [71, 68, 80], [25237, 36164], [36152, 26131], [20986, 21475], [36827, 21475],
      [20225, 19994]]"

definition tech_keywords :: "pystr list" where
  \<comment> \<open>the fourth keyword is \<open>AI\<close>, the sixth is \<open>5G\<close>\<close>
  "tech_keywords =
     [[31185, 25216], [25216, 26415], [20114, 32852, 32593], [65, 73],
      [20154, 24037, 26234, 33021], [53, 71], [33455, 29255], [21019, 26032],
      [25968, 23383, 21270]]"

definition education_keywords :: "pystr list" where
  "education_keywords =
     [[25945, 32946], [23398, 26657], [23398, 29983], [25945, 24072], [32771, 35797],
      [25307, 29983], [22823, 23398], [22521, 35757]]"

definition sports_keywords :: "pystr list" where
  "sports_keywords =
     [[20307, 32946], [36275, 29699], [31726, 29699], [22885, 36816, 20250],
      [27604, 36187], [36816, 21160, 21592], [20896, 20891], [36187, 20107]]"

definition health_keywords :: "pystr list" where
  "health_keywords =
     [[20581, 24247], [21307, 30103], [21307, 38498], [30142, 30149], [30123, 33495],
      [33647, 21697], [27835, 30103], [21307, 29983]]"

definition environment_keywords :: "pystr list" where
  "environment_keywords =
     [[29615, 22659], [29615, 20445], [27745, 26579], [27668, 20505], [29983, 24577],
      [32511, 33394], [21487, 25345, 32493, 21457, 23637]]"

definition culture_keywords :: "pystr list" where
  "culture_keywords =
     [[25991, 21270], [33402, 26415], [30005, 24433], [38899, 20048], [25991, 23398],
      [21382, 21490], [20256, 32479], [21338, 29289, 39302]]"

definition international_keywords :: "pystr list" where
  "international_keywords =
     [[22269, 38469], [22806, 20132], [32654, 22269], [26085, 26412], [27431, 27954],
      [32852, 21512, 22269], [20840, 29699], [19990, 30028]]"

definition categorize_news :: "(pystr \<Rightarrow> pystr) \<Rightarrow> pystr \<Rightarrow> pystr \<Rightarrow> NewsCategory" where
  "categorize_news lw t s =
     (let text = lw (t @ [32] @ s) in
      if list_ex (\<lambda>keyword. py_in keyword text) politics_keywords then POLITICS
      else if list_ex (\<lambda>keyword. py_in keyword text) economy_keywords then ECONOMY
      else if list_ex (\<lambda>keyword. py_in keyword text) tech_keywords then TECHNOLOGY
      else if list_ex (\<lambda>keyword. py_in keyword text) education_keywords then EDUCATION
      else if list_ex (\<lambda>keyword. py_in keyword text) sports_keywords then SPORTS
      else if list_ex (\<lambda>keyword. py_in keyword text) health_keywords then HEALTH
      else if list_ex (\<lambda>keyword. py_in keyword text) environment_keywords then ENVIRONMENT
      else if list_ex (\<lambda>keyword. py_in keyword text) culture_keywords then CULTURE
      else if list_ex (\<lambda>keyword. py_in keyword text) international_keywords
      then INTERNATIONAL
      else SOCIETY)"

text \<open>The two lists written into the aggregator's \<open>determine_importance\<close>.\<close>

definition agg_important_keywords :: "pystr list" where
  "agg_important_keywords =
     [[32039, 24613], [37325, 22823], [37325, 35201], [31361, 21457], [39318, 27425],
      [31361, 30772], [21019, 26032], [25919, 31574], [27861, 35268]]"

definition agg_authoritative_sources :: "pystr list" where
  "agg_authoritative_sources =
     [[26032, 21326, 31038], [20154, 27665, 26085, 25253], [22830, 35270], [20013, 22830],
      [22269, 21153, 38498]]"

text \<open>
  \<open>NewsAggregator.determine_importance\<close>. In the second test,
  \<open>any(source in authoritative_sources for source in authoritative_sources)\<close>, the
  generator's variable is called \<open>source\<close> too, so inside the generator \<open>source\<close> is an
  element of the list and the parameter \<open>src\<close> is never read.
\<close>

definition aggregator_determine_importance ::
  "(pystr \<Rightarrow> pystr) \<Rightarrow> pystr \<Rightarrow> pystr \<Rightarrow> pystr \<Rightarrow> int" where
  "aggregator_determine_importance lw t s src =
     (let text = lw (t @ [32] @ s) in
      if list_ex (\<lambda>keyword. py_in keyword text) agg_important_keywords then 5
      else if list_ex (\<lambda>source. source \<in> set agg_authoritative_sources)
                agg_authoritative_sources then 4
      else if int (length t) > 20 \<or> py_in [21457, 24067] text \<or> py_in [20844, 24067] text
      then 3
      else 2)"

section \<open>The comment analysers (xueqiu\_comment\_analyzer.py, xueqiu\_simple\_analyzer.py)\<close>

subsection \<open>\<open>clean_text\<close>\<close>

text \<open>
  Whitespace as \<open>\s\<close> and \<open>str.strip\<close> see it on a \<open>str\<close>: the 29 code points for
  which \<open>str.isspace\<close> holds.
\<close>

definition is_space :: "nat \<Rightarrow> bool" where
  "is_space c =
     ((9 \<le> c \<and> c \<le> 13) \<or> (28 \<le> c \<and> c \<le> 32) \<or> c = 133 \<or> c = 160 \<or> c = 5760
      \<or> (8192 \<le> c \<and> c \<le> 8202) \<or> c = 8232 \<or> c = 8233 \<or> c = 8239 \<or> c = 8287
      \<or> c = 12288)"

definition is_letter :: "nat \<Rightarrow> bool" where
  \<comment> \<open>\<open>[a-zA-Z]\<close>\<close>
  "is_letter c = ((97 \<le> c \<and> c \<le> 122) \<or> (65 \<le> c \<and> c \<le> 90))"

definition is_digit :: "nat \<Rightarrow> bool" where
  \<comment> \<open>\<open>[0-9]\<close>\<close>
  "is_digit c = (48 \<le> c \<and> c \<le> 57)"

text \<open>
  First substitution, \<open>re.sub(r'<[^>]+>', '', text)\<close>. After a \<open><\<close> the greedy
  \<open>[^>]+\<close> takes every character up to the next \<open>>\<close>; the match succeeds when it took
  at least one and a \<open>>\<close> follows. \<open>match_tag\<close> is given the text after the \<open><\<close> and
  returns the text after the match.
\<close>

definition match_tag :: "pystr \<Rightarrow> pystr option" where
  "match_tag cs =
     (let body = takeWhile (\<lambda>c. c \<noteq> 62) cs; rest = dropWhile (\<lambda>c. c \<noteq> 62) cs
      in if body = [] \<or> rest = [] then None else Some (tl rest))"

lemma match_tag_shorter: "match_tag cs = Some rest \<Longrightarrow> length rest \<le> length cs"
proof -
  assume "match_tag cs = Some rest"
  then have "rest = tl (dropWhile (\<lambda>c. c \<noteq> 62) cs)"
    by (auto simp: match_tag_def Let_def split: if_splits)
  moreover have "length (dropWhile (\<lambda>c. c \<noteq> 62) cs) \<le> length cs"
    by (rule length_dropWhile_le)
  ultimately show ?thesis by simp
qed

function sub_tags :: "pystr \<Rightarrow> pystr" where
  "sub_tags [] = []"
| "sub_tags (c # cs) =
     (if c = 60 then
        (case match_tag cs of Some rest \<Rightarrow> sub_tags rest | None \<Rightarrow> c # sub_tags cs)
      else c # sub_tags cs)"
  by pat_completeness auto
termination
  by (relation "measure length") (auto dest: match_tag_shorter)

text \<open>
  Second substitution: \<open>http\<close>, an optional \<open>s\<close>, \<open>://\<close>, and one or more characters
  of the alternatives \<open>[a-zA-Z]\<close>, \<open>[0-9]\<close>, \<open>[$-_@.&+]\<close> (the range from \<open>$\<close> to
  \<open>_\<close> and four more), \<open>[!*\\(\\),]\<close>. The last alternative, a percent sign and two
  hexadecimal digits, starts with a character of the third, which is tried first, so
  it adds nothing: the match takes the longest run of these characters.
\<close>

definition is_url_char :: "nat \<Rightarrow> bool" where
  "is_url_char c =
     (is_letter c \<or> is_digit c
      \<or> ((36 \<le> c \<and> c \<le> 95) \<or> c = 64 \<or> c = 46 \<or> c = 38 \<or> c = 43)
      \<or> (c = 33 \<or> c = 42 \<or> c = 92 \<or> c = 40 \<or> c = 41 \<or> c = 44))"

fun strip_prefix :: "pystr \<Rightarrow> pystr \<Rightarrow> pystr option" where
  "strip_prefix [] xs = Some xs"
| "strip_prefix (p # ps) [] = None"
| "strip_prefix (p # ps) (x # xs) = (if p = x then strip_prefix ps xs else None)"

definition match_url :: "pystr \<Rightarrow> pystr option" where
  \<comment> \<open>the prefixes are \<open>https://\<close> and \<open>http://\<close>\<close>
  "match_url xs =
     (case (case strip_prefix [104, 116, 116, 112, 115, 58, 47, 47] xs of
              Some r \<Rightarrow> Some r
            | None \<Rightarrow> strip_prefix [104, 116, 116, 112, 58, 47, 47] xs) of
        None \<Rightarrow> None
      | Some r \<Rightarrow> if takeWhile is_url_char r = [] then None
                  else Some (dropWhile is_url_char r))"

lemma strip_prefix_shorter: "strip_prefix ps xs = Some r \<Longrightarrow> length r + length ps = length xs"
  by (induction ps xs rule: strip_prefix.induct) (auto split: if_splits)

lemma match_url_shorter: "match_url xs = Some rest \<Longrightarrow> length rest < length xs"
proof -
  assume m: "match_url xs = Some rest"
  then obtain r ps where r: "strip_prefix ps xs = Some r" "ps \<noteq> []"
      and rest: "rest = dropWhile is_url_char r"
    by (auto simp: match_url_def split: option.splits if_splits)
  have "length rest \<le> length r" using rest by (simp add: length_dropWhile_le)
  moreover have "length r < length xs" using strip_prefix_shorter [OF r(1)] r(2) by (cases ps) auto
  ultimately show ?thesis by simp
qed

function sub_urls :: "pystr \<Rightarrow> pystr" where
  "sub_urls [] = []"
| "sub_urls (c # cs) =
     (case match_url (c # cs) of Some rest \<Rightarrow> sub_urls rest | None \<Rightarrow> c # sub_urls cs)"
  by pat_completeness auto
termination
  by (relation "measure length") (auto dest: match_url_shorter)

text \<open>
  Third substitution: every character outside
  \<open>[\u4e00-\u9fa5a-zA-Z0-9\s]\<close> is removed.
\<close>

definition is_kept :: "nat \<Rightarrow> bool" where
  "is_kept c = ((19968 \<le> c \<and> c \<le> 40869) \<or> is_letter c \<or> is_digit c \<or> is_space c)"

definition sub_special :: "pystr \<Rightarrow> pystr" where
  "sub_special xs = filter is_kept xs"

text \<open>Fourth substitution: every maximal run of whitespace becomes one space.\<close>

function sub_spaces :: "pystr \<Rightarrow> pystr" where
  "sub_spaces [] = []"
| "sub_spaces (c # cs) =
     (if is_space c then 32 # sub_spaces (dropWhile is_space cs) else c # sub_spaces cs)"
  by pat_completeness auto
termination
  by (relation "measure length") (auto intro: le_imp_less_Suc length_dropWhile_le)

text \<open>\<open>str.strip()\<close>: whitespace is dropped at both ends.\<close>

definition py_strip :: "pystr \<Rightarrow> pystr" where
  "py_strip xs = rev (dropWhile is_space (rev (dropWhile is_space xs)))"

text \<open>
  \<open>clean_text\<close>, the same in both analysers. The argument may be \<open>None\<close>; \<open>not text\<close>
  holds of \<open>None\<close> and of the empty string.
\<close>

definition clean_text :: "pystr option \<Rightarrow> pystr" where
  "clean_text text =
     (case text of
        None \<Rightarrow> []
      | Some t \<Rightarrow>
          if t = [] then []
          else py_strip (sub_spaces (sub_special (sub_urls (sub_tags t)))))"

subsection \<open>\<open>analyze_sentiment\<close>\<close>

definition positive_words :: "pystr list" where
  "positive_words =
     [[28072], [22909], [30475, 22909], [20080, 20837], [25345, 26377], [20048, 35266],
      [26426, 20250], [21033, 22909], [31361, 30772], [24378, 21183]]"

definition negative_words :: "pystr list" where
  "negative_words =
     [[36300], [19981, 22909], [30475, 31354], [21334, 20986], [24754, 35266],
      [39118, 38505], [21033, 31354], [30772, 20301], [24369, 21183], [21106, 32905]]"

text \<open>The three labels the function returns (optimistic, pessimistic, neutral).\<close>

definition label_positive :: pystr where
  "label_positive = [20048, 35266]"

definition label_negative :: pystr where
  "label_negative = [24754, 35266]"

definition label_neutral :: pystr where
  "label_neutral = [20013, 24615]"

text \<open>\<open>sum(1 for word in words if word in text_lower)\<close>.\<close>

definition count_present :: "pystr list \<Rightarrow> pystr \<Rightarrow> int" where
  "count_present ws text_lower = sum_list (map (\<lambda>word. 1) (filter (\<lambda>word. py_in word text_lower) ws))"

definition analyze_sentiment :: "(pystr \<Rightarrow> pystr) \<Rightarrow> pystr \<Rightarrow> pystr" where
  "analyze_sentiment lw text =
     (let text_lower = lw text;
          positive_count = count_present positive_words text_lower;
          negative_count = count_present negative_words text_lower
      in if positive_count > negative_count then label_positive
         else if negative_count > positive_count then label_negative
         else label_neutral)"

subsection \<open>The sentiment by occurrences\<close>

text \<open>
  The specification's wording of the sentiment, for comparison with the code: the
  occurrences of the keywords in the text are counted, each place where a keyword
  stands counting once, and the two totals are compared.
\<close>

fun occurrences :: "'a list \<Rightarrow> 'a list \<Rightarrow> nat" where
  "occurrences w [] = 0"
| "occurrences w (c # cs) = (if prefix w (c # cs) then 1 else 0) + occurrences w cs"

definition total_occurrences :: "pystr list \<Rightarrow> pystr \<Rightarrow> nat" where
  "total_occurrences ws t = sum_list (map (\<lambda>w. occurrences w t) ws)"

definition sentiment_by_occurrences :: "(pystr \<Rightarrow> pystr) \<Rightarrow> pystr \<Rightarrow> pystr" where
  "sentiment_by_occurrences lw t =
     (if total_occurrences positive_words (lw t) > total_occurrences negative_words (lw t)
      then label_positive
      else if total_occurrences negative_words (lw t) > total_occurrences positive_words (lw t)
      then label_negative
      else label_neutral)"

section \<open>Notions used in the proofs\<close>

text \<open>
  The text after the whitespace substitution: every whitespace character in it is a
  plain space, and no two stand side by side.
\<close>

fun collapsed :: "pystr \<Rightarrow> bool" where
  "collapsed [] = True"
| "collapsed (c # zs) =
     ((is_space c \<longrightarrow> c = 32 \<and> (zs = [] \<or> \<not> is_space (hd zs))) \<and> collapsed zs)"

text \<open>
  What \<open>clean_text\<close> returns: only plain spaces and kept characters that are not
  whitespace, collapsed, and with no whitespace at either end.
\<close>

definition normal :: "pystr \<Rightarrow> bool" where
  "normal ys = ((\<forall>c \<in> set ys. c = 32 \<or> (is_kept c \<and> \<not> is_space c))
      \<and> collapsed ys \<and> py_strip ys = ys)"

text \<open>
  The aggregator's classifier in the specification's words: an ordered list of keyword
  sets with their categories, the first set with a match winning.
\<close>

definition category_rules :: "(pystr list \<times> NewsCategory) list" where
  "category_rules =
     [(politics_keywords, POLITICS), (economy_keywords, ECONOMY), (tech_keywords, TECHNOLOGY),
      (education_keywords, EDUCATION), (sports_keywords, SPORTS), (health_keywords, HEALTH),
      (environment_keywords, ENVIRONMENT), (culture_keywords, CULTURE),
      (international_keywords, INTERNATIONAL)]"

text \<open>A configuration whose only authoritative source is \<open>Xinhua News Agency\<close>.\<close>

definition authority_cfg :: config where
  "authority_cfg = get_default_config\<lparr>importance_section :=
      Some (no_importance\<lparr>authoritative_sources := Some [ascii ''Xinhua News Agency'']\<rparr>)\<rparr>"

text \<open>An item that is told apart by its title and carries a given importance.\<close>

definition item5 :: "int \<Rightarrow> nat \<Rightarrow> NewsItem" where
  "item5 i k = \<lparr>title = [k], summary = [], category = SOCIETY, source = [], url = [],
      publish_time = [], importance = i\<rparr>"

text \<open>The five-item digest of the specification's example: importances 3, 5, 5, 2, 5.\<close>

definition digest5 :: NewsDigest where
  "digest5 = \<lparr>news_items = [item5 3 0, item5 5 1, item5 5 2, item5 2 3, item5 5 4],
     today = []\<rparr>"

section \<open>Look-ups and substrings\<close>

lemma dict_get_simps [simp]:
  "dict_get d None = d"
  "dict_get d (Some v) = v"
  by (simp_all add: dict_get_def)

text \<open>\<open>py_in\<close> computes the containment of one list in another as a contiguous part.\<close>

lemma py_in_sublist: "py_in sub hay = sublist sub hay"
  by (induction hay) (auto simp: sublist_Cons_right)

section \<open>Adding items\<close>

text \<open>
  Claim C10. \<open>add_news\<close> validates nothing: whatever the arguments, also an importance
  outside 1..5, the digest afterwards holds the old items, unchanged and in their
  places, followed by exactly one new item whose fields are the arguments as passed
  (an omitted \<open>url\<close> or \<open>publish_time\<close> is the empty string, an omitted importance is 1),
  and the number of items has grown by one.
\<close>

theorem add_news_appends:
  "news_items (add_news d t s c src u p i) =
     news_items d @ [\<lparr>title = t, summary = s, category = c, source = src,
                      url = (case u of None \<Rightarrow> [] | Some v \<Rightarrow> v),
                      publish_time = (case p of None \<Rightarrow> [] | Some v \<Rightarrow> v),
                      importance = (case i of None \<Rightarrow> 1 | Some v \<Rightarrow> v)\<rparr>]
   \<and> take (length (news_items d)) (news_items (add_news d t s c src u p i)) = news_items d
   \<and> length (news_items (add_news d t s c src u p i)) = length (news_items d) + 1
   \<and> importance (last (news_items (add_news d t s c src u p (Some k)))) = k
   \<and> today (add_news d t s c src u p i) = today d"
  by (simp add: add_news_def Let_def dict_get_def)

theorem add_news_appends_witness:
  "news_items (add_news (NewsDigest_init [50]) [97] [98] SPORTS [99] None None (Some 7)) =
     [\<lparr>title = [97], summary = [98], category = SPORTS, source = [99], url = [],
       publish_time = [], importance = 7\<rparr>]
   \<and> news_items (add_news (NewsDigest_init [50]) [97] [98] SPORTS [99] None None None) =
     [\<lparr>title = [97], summary = [98], category = SPORTS, source = [99], url = [],
       publish_time = [], importance = 1\<rparr>]
   \<and> length (news_items
        (add_news (add_news (NewsDigest_init [50]) [97] [98] SPORTS [99] None None (Some (- 3)))
           [100] [101] ECONOMY [102] (Some [103]) (Some [104]) (Some 0))) = 2"
  using add_news_appends [of "NewsDigest_init [50]" "[97]" "[98]" SPORTS "[99]" None None "Some 7"]
    add_news_appends [of "NewsDigest_init [50]" "[97]" "[98]" SPORTS "[99]" None None None]
    add_news_appends [of "add_news (NewsDigest_init [50]) [97] [98] SPORTS [99] None None (Some (- 3))"
       "[100]" "[101]" ECONOMY "[102]" "Some [103]" "Some [104]" "Some 0"]
    add_news_appends [of "NewsDigest_init [50]" "[97]" "[98]" SPORTS "[99]" None None "Some (- 3)"]
  by (simp add: NewsDigest_init_def)

section \<open>The top items\<close>

text \<open>
  Python's reversed sort is the stable sort, descending: sorting the reversed list and
  reversing the result gives a list sorted on the negated key in which equal keys keep
  their order, and there is only one such list.
\<close>

lemma sorted_map_neg_rev:
  fixes f :: "'a \<Rightarrow> int"
  shows "sorted (map f zs) \<Longrightarrow> sorted (map (\<lambda>x. - f x) (rev zs))"
  by (induction zs) (auto simp: sorted_append)

lemma py_sorted_reverse_stable_desc:
  "py_sorted_reverse f xs = sort_key (\<lambda>x. - f x) xs"
proof -
  let ?ys = "rev (sort_key f (rev xs))"
  have m: "mset ?ys = mset xs" by simp
  have s: "sorted (map (\<lambda>x. - f x) ?ys)"
    by (rule sorted_map_neg_rev) simp
  have st: "filter (\<lambda>x. - f k = - f x) ?ys = filter (\<lambda>x. - f k = - f x) xs" for k
  proof -
    have "filter (\<lambda>x. f x = f k) (sort_key f (rev xs)) = filter (\<lambda>x. f x = f k) (rev xs)"
      by (rule sort_key_stable)
    then have "rev (filter (\<lambda>x. f x = f k) (sort_key f (rev xs))) = filter (\<lambda>x. f x = f k) xs"
      by (simp add: rev_filter)
    moreover have "(\<lambda>x. - f k = - f x) = (\<lambda>x. f x = f k)" by auto
    ultimately show ?thesis by (simp add: rev_filter)
  qed
  have "sort_key (\<lambda>x. - f x) xs = ?ys"
    by (rule properties_for_sort_key [OF m st s])
  then show ?thesis by (simp add: py_sorted_reverse_def)
qed

lemma stable_sort_desc_sorted:
  "sorted_wrt (\<lambda>a b. importance b \<le> importance a) (stable_sort_desc xs)"
proof -
  have "sorted (map (\<lambda>item. - importance item) (stable_sort_desc xs))"
    by (simp add: stable_sort_desc_def)
  then show ?thesis by (simp add: sorted_map)
qed

lemma stable_sort_desc_stable:
  "filter (\<lambda>x. importance x = k) (stable_sort_desc xs) = filter (\<lambda>x. importance x = k) xs"
proof -
  have e: "(\<lambda>x::NewsItem. importance x = k) = (\<lambda>x. - importance x = - k)" by auto
  show ?thesis
    unfolding stable_sort_desc_def e by (rule sort_key_stable)
qed

lemma get_top_news_take:
  "get_top_news d (int n) = take n (stable_sort_desc (news_items d))"
  by (simp add: get_top_news_def slice_to_def py_sorted_reverse_stable_desc stable_sort_desc_def)

lemma top_dominates_rest:
  "\<forall>x \<in> set (take n (stable_sort_desc xs)). \<forall>y \<in> set (drop n (stable_sort_desc xs)).
     importance y \<le> importance x"
proof -
  have "sorted_wrt (\<lambda>a b. importance b \<le> importance a)
          (take n (stable_sort_desc xs) @ drop n (stable_sort_desc xs))"
    using stable_sort_desc_sorted by simp
  then show ?thesis unfolding sorted_wrt_append by blast
qed

text \<open>
  Claim C4. For every digest and every count \<open>n\<close>, \<open>get_top_news\<close> returns the first
  \<open>n\<close> items of the digest's items sorted stably, descending by importance: that list
  is descending, holds every item once, and keeps items of equal importance in the
  order they were added; no item left out is more important than a returned one; the
  result has \<open>n\<close> items, or all of them when \<open>n\<close> is not less than the number of
  items. For items of importance 3, 5, 5, 2, 5 added in that order, the top three are
  the three of importance 5 in the order they were added.
\<close>

theorem get_top_news_stable_top:
  "get_top_news d (int n) = take n (stable_sort_desc (news_items d))
   \<and> sorted_wrt (\<lambda>a b. importance b \<le> importance a) (stable_sort_desc (news_items d))
   \<and> (\<forall>k. filter (\<lambda>x. importance x = k) (stable_sort_desc (news_items d))
           = filter (\<lambda>x. importance x = k) (news_items d))
   \<and> mset (stable_sort_desc (news_items d)) = mset (news_items d)
   \<and> (\<forall>x \<in> set (get_top_news d (int n)). \<forall>y \<in> set (drop n (stable_sort_desc (news_items d))).
         importance y \<le> importance x)
   \<and> length (get_top_news d (int n)) = min n (length (news_items d))
   \<and> (length (news_items d) \<le> n \<longrightarrow> get_top_news d (int n) = stable_sort_desc (news_items d))
   \<and> get_top_news \<lparr>news_items = [a\<lparr>importance := 3\<rparr>, b\<lparr>importance := 5\<rparr>,
          c\<lparr>importance := 5\<rparr>, e\<lparr>importance := 2\<rparr>, f\<lparr>importance := 5\<rparr>], today = t\<rparr> 3
       = [b\<lparr>importance := 5\<rparr>, c\<lparr>importance := 5\<rparr>, f\<lparr>importance := 5\<rparr>]"
proof -
  have len: "length (stable_sort_desc (news_items d)) = length (news_items d)"
    by (simp add: stable_sort_desc_def)
  have ex: "get_top_news \<lparr>news_items = [a\<lparr>importance := 3\<rparr>, b\<lparr>importance := 5\<rparr>,
          c\<lparr>importance := 5\<rparr>, e\<lparr>importance := 2\<rparr>, f\<lparr>importance := 5\<rparr>], today = t\<rparr> 3
       = [b\<lparr>importance := 5\<rparr>, c\<lparr>importance := 5\<rparr>, f\<lparr>importance := 5\<rparr>]"
    by (simp add: get_top_news_def py_sorted_reverse_def slice_to_def)
  show ?thesis
    using top_dominates_rest [of n "news_items d"] ex
    by (simp add: get_top_news_take stable_sort_desc_sorted stable_sort_desc_stable len)
      (simp add: stable_sort_desc_def)
qed

theorem get_top_news_stable_top_witness:
  "length (news_items digest5) \<le> 7
   \<and> get_top_news digest5 7 = [item5 5 1, item5 5 2, item5 5 4, item5 3 0, item5 2 3]
   \<and> get_top_news digest5 3 = [item5 5 1, item5 5 2, item5 5 4]"
  using get_top_news_stable_top [of digest5 7] get_top_news_stable_top [of digest5 3]
  by (simp add: stable_sort_desc_def item5_def digest5_def)

section \<open>The report on an empty digest\<close>

text \<open>
  Claim C7. On a digest without items, freshly created or not, \<open>generate_digest\<close>
  returns the fixed no-items message, whatever the date and the clock; that message
  holds neither the report's header nor the headline section's heading, nor the
  marker that opens a category section, nor the closing count line.
\<close>

theorem generate_digest_empty:
  "generate_digest (NewsDigest_init date) now = no_news_message
   \<and> generate_digest (d\<lparr>news_items := []\<rparr>) now = no_news_message
   \<and> \<not> py_in report_header no_news_message
   \<and> \<not> py_in top_news_header no_news_message
   \<and> \<not> py_in category_prefix no_news_message
   \<and> \<not> py_in stats_prefix no_news_message"
  by (simp add: generate_digest_def NewsDigest_init_def no_news_message_def report_header_def
      top_news_header_def category_prefix_def stats_prefix_def)

text \<open>
  The header is what a report on a digest with items starts with, so its absence above
  is the absence of the report proper.
\<close>

lemma fold_category_section_prefix:
  "prefix acc (fold (category_section d) cs acc)"
proof (induction cs arbitrary: acc)
  case Nil
  show ?case by simp
next
  case (Cons c cs)
  have "prefix acc (category_section d c acc)"
    by (simp add: category_section_def Let_def)
  moreover have "prefix (category_section d c acc) (fold (category_section d) cs (category_section d c acc))"
    by (rule Cons.IH)
  ultimately show ?case by (auto intro: prefix_order.trans)
qed

lemma generate_digest_nonempty_header:
  assumes "news_items d \<noteq> []"
  shows "prefix (report_header @ today d) (generate_digest d now)"
proof -
  let ?h = "report_header @ today d @ [10] @ replicate 50 61 @ [10, 10]"
  let ?t = "(if get_top_news d 3 \<noteq> [] then ?h @ top_news_header @ replicate 20 45 @ [10]
                        @ render_entries 1 (get_top_news d 3) else ?h)"
  have 1: "prefix ?h ?t" by simp
  have 2: "prefix ?t (fold (category_section d) all_categories ?t)"
    by (rule fold_category_section_prefix)
  from assms have "\<exists>r. generate_digest d now = fold (category_section d) all_categories ?t @ r"
    by (simp add: generate_digest_def Let_def)
  then have 3: "prefix (fold (category_section d) all_categories ?t) (generate_digest d now)"
    by (auto simp: prefix_def)
  have "prefix ?h (generate_digest d now)"
    using 1 2 3 by (meson prefix_order.trans)
  moreover have "prefix (report_header @ today d) ?h" by simp
  ultimately show ?thesis by (meson prefix_order.trans)
qed

text \<open>The report on a digest that holds one item.\<close>

lemma generate_digest_example:
  "generate_digest (add_news (NewsDigest_init (ascii ''2024'')) (ascii ''T'') (ascii ''S'') SPORTS (ascii ''src'') None None None) (ascii ''now'')
   = report_header @ ascii ''2024'' @ [10] @ replicate 50 61 @ [10, 10]
     @ top_news_header @ replicate 20 45 @ [10]
     @ ascii ''1. T'' @ [10] @ ascii ''   S'' @ [10] @ source_prefix @ ascii ''src'' @ [10, 10]
     @ category_prefix @ category_value SPORTS @ [10] @ replicate 20 45 @ [10]
     @ ascii ''1. T'' @ [10] @ ascii ''   S'' @ [10] @ source_prefix @ ascii ''src'' @ [10, 10]
     @ replicate 50 61 @ [10]
     @ stats_prefix @ ascii ''1'' @ stats_suffix
     @ time_prefix @ ascii ''now''"
  by (simp add: generate_digest_def add_news_def NewsDigest_init_def get_top_news_def
      py_sorted_reverse_def slice_to_def all_categories_def category_section_def
      get_news_by_category_def str_of_nat.simps ascii_def Let_def)

section \<open>Loading the configuration\<close>

text \<open>
  Claim C2, as stated, fails: a malformed document is not recovered. Both loaders
  raise the parser's error.
\<close>

theorem load_config_malformed_raises:
  "load_config Malformed = Inl YAMLError \<and> xueqiu_load_config Malformed = Inl YAMLError"
  by (simp add: load_config_def xueqiu_load_config_def load_or_default_def open_file_def safe_load_def)

text \<open>
  Claim C2, amended. When the configuration file is missing, each loader returns its
  built-in default configuration and raises nothing; a well-formed document is returned
  as parsed; on a malformed document the parser's error leaves the loader.
\<close>

theorem load_config_missing_default:
  "load_config Missing = Inr get_default_config
   \<and> xueqiu_load_config Missing = Inr xueqiu_default_config
   \<and> load_config (Document c) = Inr c
   \<and> xueqiu_load_config (Document x) = Inr x
   \<and> load_config Malformed = Inl YAMLError
   \<and> xueqiu_load_config Malformed = Inl YAMLError"
  by (simp add: load_config_def xueqiu_load_config_def load_or_default_def open_file_def safe_load_def)

theorem load_config_missing_default_witness:
  "load_config Missing = Inr get_default_config
   \<and> load_config (Document get_default_config) = Inr get_default_config
   \<and> xueqiu_load_config (Document xueqiu_default_config) = Inr xueqiu_default_config"
  using load_config_missing_default [of get_default_config xueqiu_default_config]
  by simp

section \<open>The importance scorers\<close>

text \<open>
  Claim C9. Whatever the configuration, the title, the summary and the source, both
  scorers return one of 2, 3, 4, 5, so an importance between 1 and 5: every value they
  can return is a constant of that range.
\<close>

theorem determine_importance_range:
  "determine_importance lw cfg t s src \<in> {2, 3, 4, 5}
   \<and> aggregator_determine_importance lw t s src \<in> {2, 3, 4, 5}
   \<and> 1 \<le> determine_importance lw cfg t s src \<and> determine_importance lw cfg t s src \<le> 5
   \<and> 1 \<le> aggregator_determine_importance lw t s src \<and> aggregator_determine_importance lw t s src \<le> 5"
  by (simp add: determine_importance_def aggregator_determine_importance_def Let_def)

text \<open>
  Claim C1 fails on the code at the second tier. The aggregator's scorer gives a piece
  with no critical keyword, a short title and the source \<open>blog\<close>, which is not in its
  list of authoritative sources, the score 4, where the claim asks for 2. The manager's
  scorer tests whether the source name is contained in an entry of the list, so with
  the single entry \<open>Xinhua News Agency\<close> the sources \<open>News\<close> and the empty name score 4
  too, though neither is in the list.
\<close>

theorem scorers_tier2_ignores_source:
  "aggregator_determine_importance ascii_lower (ascii ''weather'') (ascii ''sunny'') (ascii ''blog'') = 4
   \<and> ascii ''blog'' \<notin> set agg_authoritative_sources
   \<and> determine_importance ascii_lower authority_cfg (ascii ''weather'') (ascii ''sunny'') (ascii ''News'') = 4
   \<and> determine_importance ascii_lower authority_cfg (ascii ''weather'') (ascii ''sunny'') [] = 4
   \<and> ascii ''News'' \<notin> set [ascii ''Xinhua News Agency'']"
  by (simp add: aggregator_determine_importance_def determine_importance_def authority_cfg_def
      get_default_config_def no_importance_def ascii_lower_def ascii_def Let_def
      agg_important_keywords_def agg_authoritative_sources_def)

text \<open>
  The aggregator's second test does not depend on the source at all: without a critical
  keyword the score is 4, so the scores 3 and 2 are never given.
\<close>

lemma aggregator_importance_4_or_5:
  "aggregator_determine_importance lw t s src =
     (if list_ex (\<lambda>keyword. py_in keyword (lw (t @ [32] @ s))) agg_important_keywords then 5 else 4)"
  by (simp add: aggregator_determine_importance_def Let_def agg_authoritative_sources_def)

text \<open>
  The manager's scorer as a decision list: 3 when scoring is switched off; otherwise 5
  for a critical keyword in the lower-cased title and summary, else 4 when the source
  name is contained in an authoritative-source entry, else 3 for an important keyword,
  else 3 for a title longer than the threshold (20 by default), else 2.
\<close>

theorem determine_importance_decision_list:
  "determine_importance lw cfg t s src =
     (if auto_importance_flag (dict_get no_system (system_section cfg)) = Some False then 3
      else if \<exists>k \<in> set (dict_get [] (critical_keywords (dict_get no_importance (importance_section cfg)))).
                sublist k (lw (t @ [32] @ s)) then 5
      else if \<exists>a \<in> set (dict_get [] (authoritative_sources (dict_get no_importance (importance_section cfg)))).
                sublist src a then 4
      else if \<exists>k \<in> set (dict_get [] (important_keywords (dict_get no_importance (importance_section cfg)))).
                sublist k (lw (t @ [32] @ s)) then 3
      else if int (length t) > dict_get 20 (title_length_threshold (dict_get no_importance (importance_section cfg)))
      then 3 else 2)"
  by (cases "auto_importance_flag (dict_get no_system (system_section cfg))")
     (simp_all add: determine_importance_def Let_def list_ex_iff py_in_sublist)

section \<open>The item filter\<close>

lemma any_in_item_present:
  "news key = Some v \<Longrightarrow> any_in_item ks news key = Inr (list_ex (\<lambda>k. py_in k v) ks)"
  by (induction ks) (simp_all add: getitem_def)

text \<open>
  Claim C3 fails on the code: a record without a summary, which the web fetcher
  produces when a page has no summary element, makes \<open>filter_news\<close> raise \<open>KeyError\<close>
  under the default configuration, and so does a record without a title; the error
  leaves \<open>process_news_list\<close> as well.
\<close>

theorem filter_news_missing_field_raises:
  "filter_news get_default_config
      [''title'' \<mapsto> ascii ''Ten characters'', ''source'' \<mapsto> ascii ''example.com'']
     = Inl (KeyError ''summary'')
   \<and> filter_news get_default_config
      [''summary'' \<mapsto> ascii ''Ten characters'', ''source'' \<mapsto> ascii ''example.com'']
     = Inl (KeyError ''title'')
   \<and> process_news_list ascii_lower get_default_config (NewsDigest_init [])
      [[''title'' \<mapsto> ascii ''Ten characters'', ''source'' \<mapsto> ascii ''example.com'']]
      (ascii ''example.com'')
     = Inl (KeyError ''summary'')"
  by (simp add: filter_news_def get_default_config_def getitem_def ascii_def Let_def no_filters_def)

text \<open>
  On a record that has a title and a summary, empty or not, \<open>filter_news\<close> returns a
  boolean: the conjunction of the four checks (no blacklisted part in the title, none
  in the source, which counts as empty when absent, and both lengths within their
  bounds).
\<close>

theorem filter_news_complete_record:
  assumes "news ''title'' = Some t" and "news ''summary'' = Some s"
  shows "filter_news cfg news =
     Inr (\<not> (\<exists>k \<in> set (dict_get [] (title_blacklist (dict_get no_filters (filters cfg)))). sublist k t)
          \<and> \<not> (\<exists>k \<in> set (dict_get [] (source_blacklist (dict_get no_filters (filters cfg)))).
                  sublist k (dict_get [] (news ''source'')))
          \<and> dict_get 5 (min_title_length (dict_get no_filters (filters cfg))) \<le> int (length t)
          \<and> int (length t) \<le> dict_get 100 (max_title_length (dict_get no_filters (filters cfg)))
          \<and> dict_get 10 (min_summary_length (dict_get no_filters (filters cfg))) \<le> int (length s)
          \<and> int (length s) \<le> dict_get 500 (max_summary_length (dict_get no_filters (filters cfg))))"
  using assms
  by (auto simp: filter_news_def Let_def any_in_item_present getitem_def list_ex_iff py_in_sublist
        split: bool.splits)

theorem filter_news_complete_record_witness:
  "filter_news get_default_config
      [''title'' \<mapsto> ascii ''Ten characters'', ''summary'' \<mapsto> [], ''source'' \<mapsto> ascii ''example.com'']
     = Inr False
   \<and> filter_news get_default_config
      [''title'' \<mapsto> ascii ''Ten characters'', ''summary'' \<mapsto> ascii ''A summary long enough'']
     = Inr True"
  using filter_news_complete_record [of "[''title'' \<mapsto> ascii ''Ten characters'', ''summary'' \<mapsto> [], ''source'' \<mapsto> ascii ''example.com'']"
       "ascii ''Ten characters''" "[]" get_default_config]
    filter_news_complete_record [of "[''title'' \<mapsto> ascii ''Ten characters'', ''summary'' \<mapsto> ascii ''A summary long enough'']"
       "ascii ''Ten characters''" "ascii ''A summary long enough''" get_default_config]
  by (simp add: get_default_config_def no_filters_def ascii_def)

section \<open>The classifiers\<close>

text \<open>
  The text is lower-cased, the keywords are not: a keyword with a capital letter occurs
  in no lower-cased text.
\<close>

lemma uppercase_keyword_never_matches:
  assumes "c \<in> set keyword" "65 \<le> c" "c \<le> 90"
  shows "\<not> py_in keyword (ascii_lower x)"
proof
  assume "py_in keyword (ascii_lower x)"
  then have "set keyword \<subseteq> set (ascii_lower x)"
    by (simp add: py_in_sublist set_mono_sublist)
  then have "c \<in> set (ascii_lower x)" using assms(1) by blast
  then show False using assms(2,3) by (auto simp: ascii_lower_def split: if_splits)
qed

text \<open>
  Claim C5 fails on the code: the title \<open>GDP\<close> holds the economy keyword \<open>GDP\<close> as
  written, and \<open>categorize_news\<close> returns the default category; likewise \<open>AI\<close> and
  \<open>5G\<close>, in either case, match nothing.
\<close>

theorem categorize_news_misses_uppercase_keyword:
  "categorize_news ascii_lower (ascii ''GDP'') [] = SOCIETY
   \<and> ascii ''GDP'' \<in> set economy_keywords
   \<and> py_in (ascii ''GDP'') (ascii ''GDP'' @ [32] @ [])
   \<and> categorize_news ascii_lower (ascii ''AI and 5G'') (ascii ''gdp'') = SOCIETY"
  by (simp add: categorize_news_def ascii_lower_def ascii_def Let_def politics_keywords_def
      economy_keywords_def tech_keywords_def education_keywords_def sports_keywords_def
      health_keywords_def environment_keywords_def culture_keywords_def
      international_keywords_def)

text \<open>
  The priority order of the aggregator's classifier: the result is the category of the
  first rule one of whose keywords, as written, occurs in the lower-cased title and
  summary, and the default category when there is none.
\<close>

theorem categorize_news_first_match:
  "categorize_news lw t s =
     (case find (\<lambda>(ks, c). \<exists>k \<in> set ks. sublist k (lw (t @ [32] @ s))) category_rules of
        None \<Rightarrow> SOCIETY
      | Some (ks, c) \<Rightarrow> c)"
  by (simp add: categorize_news_def category_rules_def Let_def list_ex_iff py_in_sublist)

section \<open>Items by category\<close>

lemma partition_one:
  "distinct cs \<Longrightarrow> mset (concat (map (\<lambda>c. filter (\<lambda>item. f item = c) xs) cs))
     = mset (filter (\<lambda>item. f item \<in> set cs) xs)"
proof (induction cs)
  case Nil
  show ?case by simp
next
  case (Cons c cs)
  then have ih: "mset (concat (map (\<lambda>c. filter (\<lambda>item. f item = c) xs) cs))
     = mset (filter (\<lambda>item. f item \<in> set cs) xs)" by simp
  have "mset (filter (\<lambda>item. f item \<in> set (c # cs)) xs)
      = mset (filter (\<lambda>item. f item = c) xs) + mset (filter (\<lambda>item. f item \<in> set cs) xs)"
    using Cons.prems by (induction xs) auto
  with ih show ?case by simp
qed

lemma all_categories_complete: "c \<in> set all_categories" "distinct all_categories"
  by (cases c; simp add: all_categories_def)+

text \<open>
  \<open>get_news_by_category\<close> keeps the items of the category in the order they were
  added, and the categories partition the digest: over all categories, every item is
  returned exactly once.
\<close>

theorem categories_partition:
  "mset (concat (map (get_news_by_category d) all_categories)) = mset (news_items d)
   \<and> get_news_by_category d c = filter (\<lambda>item. category item = c) (news_items d)"
proof -
  have "mset (concat (map (\<lambda>c. filter (\<lambda>item. category item = c) (news_items d)) all_categories))
     = mset (filter (\<lambda>item. category item \<in> set all_categories) (news_items d))"
    by (rule partition_one) (rule all_categories_complete)
  then show ?thesis
    by (simp add: get_news_by_category_def all_categories_complete cong: map_cong)
qed

section \<open>The sentiment of a comment\<close>

lemma count_present_card:
  "distinct ws \<Longrightarrow> count_present ws text = int (card {w \<in> set ws. sublist w text})"
proof -
  assume d: "distinct ws"
  have "count_present ws text = int (length (filter (\<lambda>w. py_in w text) ws))"
    by (simp add: count_present_def sum_list_triv)
  also have "length (filter (\<lambda>w. py_in w text) ws) = card (set (filter (\<lambda>w. py_in w text) ws))"
    using d by (metis distinct_card distinct_filter)
  also have "set (filter (\<lambda>w. py_in w text) ws) = {w \<in> set ws. sublist w text}"
    by (auto simp: py_in_sublist)
  finally show ?thesis .
qed

lemma distinct_words: "distinct positive_words" "distinct negative_words"
  by (simp_all add: positive_words_def negative_words_def)

lemma labels_distinct:
  "label_positive \<noteq> label_negative" "label_positive \<noteq> label_neutral" "label_negative \<noteq> label_neutral"
  by (simp_all add: label_positive_def label_negative_def label_neutral_def)

text \<open>
  Claim C8, as stated, fails: the code does not count occurrences. In a text where the
  first positive keyword stands three times and the first negative keyword once, the
  occurrences are 3 against 1, which is positive, and \<open>analyze_sentiment\<close> returns the
  neutral label. In a text where that negative keyword stands four times and two
  positive keywords once each, the occurrences are 2 against 4, which is negative, and
  \<open>analyze_sentiment\<close> returns the positive label.
\<close>

theorem analyze_sentiment_ignores_repetition:
  "total_occurrences positive_words (ascii_lower [28072, 28072, 28072, 36300]) = 3
   \<and> total_occurrences negative_words (ascii_lower [28072, 28072, 28072, 36300]) = 1
   \<and> sentiment_by_occurrences ascii_lower [28072, 28072, 28072, 36300] = label_positive
   \<and> analyze_sentiment ascii_lower [28072, 28072, 28072, 36300] = label_neutral
   \<and> total_occurrences positive_words (ascii_lower [36300, 36300, 36300, 36300, 32, 28072, 32, 22909]) = 2
   \<and> total_occurrences negative_words (ascii_lower [36300, 36300, 36300, 36300, 32, 28072, 32, 22909]) = 4
   \<and> sentiment_by_occurrences ascii_lower [36300, 36300, 36300, 36300, 32, 28072, 32, 22909]
       = label_negative
   \<and> analyze_sentiment ascii_lower [36300, 36300, 36300, 36300, 32, 28072, 32, 22909]
       = label_positive
   \<and> label_positive \<noteq> label_neutral \<and> label_positive \<noteq> label_negative"
  by (simp add: sentiment_by_occurrences_def total_occurrences_def analyze_sentiment_def
      count_present_def positive_words_def negative_words_def ascii_lower_def Let_def
      label_positive_def label_negative_def label_neutral_def)

text \<open>
  Claim C8, amended. \<open>analyze_sentiment\<close> counts how many of the positive keywords
  occur in the lower-cased text and how many of the negative ones do, a keyword
  counting once however often it occurs, and compares the two counts: more positive
  ones give the positive label, more negative ones the negative label, equal counts
  the neutral one.
\<close>

theorem analyze_sentiment_compares_counts:
  "(analyze_sentiment lw t = label_positive \<longleftrightarrow>
      card {w \<in> set positive_words. sublist w (lw t)} > card {w \<in> set negative_words. sublist w (lw t)})
   \<and> (analyze_sentiment lw t = label_negative \<longleftrightarrow>
      card {w \<in> set negative_words. sublist w (lw t)} > card {w \<in> set positive_words. sublist w (lw t)})
   \<and> (analyze_sentiment lw t = label_neutral \<longleftrightarrow>
      card {w \<in> set positive_words. sublist w (lw t)} = card {w \<in> set negative_words. sublist w (lw t)})"
  using labels_distinct
  by (auto simp: analyze_sentiment_def Let_def count_present_card distinct_words)

theorem analyze_sentiment_compares_counts_witness:
  "analyze_sentiment ascii_lower [28072] = label_positive
   \<and> card {w \<in> set positive_words. sublist w (ascii_lower [28072])} = 1
   \<and> card {w \<in> set negative_words. sublist w (ascii_lower [28072])} = 0"
proof -
  have a: "analyze_sentiment ascii_lower [28072] = label_positive"
    by (simp add: analyze_sentiment_def count_present_def positive_words_def negative_words_def
      ascii_lower_def Let_def label_positive_def label_negative_def label_neutral_def)
  have p: "int (card {w \<in> set positive_words. sublist w (ascii_lower [28072])}) = 1"
    unfolding count_present_card [OF distinct_words(1), symmetric]
    by (simp add: count_present_def positive_words_def ascii_lower_def)
  have n: "int (card {w \<in> set negative_words. sublist w (ascii_lower [28072])}) = 0"
    unfolding count_present_card [OF distinct_words(2), symmetric]
    by (simp add: count_present_def negative_words_def ascii_lower_def)
  from p n show ?thesis
    using a analyze_sentiment_compares_counts [of ascii_lower "[28072]"] by simp
qed

text \<open>
  One positive keyword, one negative keyword, a text where the positive keyword occurs
  three times and the negative one once (one keyword of each kind: neutral), and a text
  without keywords.
\<close>

lemma analyze_sentiment_examples:
  "analyze_sentiment ascii_lower [28072] = label_positive
   \<and> analyze_sentiment ascii_lower [36300] = label_negative
   \<and> analyze_sentiment ascii_lower [28072, 28072, 28072, 36300] = label_neutral
   \<and> analyze_sentiment ascii_lower (ascii ''OK'') = label_neutral"
  by (simp add: analyze_sentiment_def count_present_def positive_words_def negative_words_def
      ascii_lower_def ascii_def Let_def label_positive_def label_negative_def label_neutral_def)

section \<open>Cleaning text\<close>

lemma sub_tags_id: "60 \<notin> set xs \<Longrightarrow> sub_tags xs = xs"
  by (induction xs) auto

lemma strip_prefix_append: "strip_prefix ps xs = Some r \<Longrightarrow> xs = ps @ r"
  by (induction ps xs rule: strip_prefix.induct) (auto split: if_splits)

lemma match_url_needs_colon: "58 \<notin> set xs \<Longrightarrow> match_url xs = None"
proof (rule ccontr)
  assume no: "58 \<notin> set xs" and "match_url xs \<noteq> None"
  then consider r where "strip_prefix [104, 116, 116, 112, 115, 58, 47, 47] xs = Some r"
    | r where "strip_prefix [104, 116, 116, 112, 58, 47, 47] xs = Some r"
    by (auto simp: match_url_def split: option.splits)
  then show False
  proof cases
    case 1
    from strip_prefix_append [OF this] no show False by auto
  next
    case 2
    from strip_prefix_append [OF this] no show False by auto
  qed
qed

lemma sub_urls_id: "58 \<notin> set xs \<Longrightarrow> sub_urls xs = xs"
proof (induction xs)
  case Nil
  show ?case by simp
next
  case (Cons c cs)
  then have "match_url (c # cs) = None" by (intro match_url_needs_colon) 
  with Cons show ?case by simp
qed

lemma sub_special_id: "\<forall>c \<in> set xs. is_kept c \<Longrightarrow> sub_special xs = xs"
  by (simp add: sub_special_def)

lemma dropWhile_head: "dropWhile P xs = [] \<or> \<not> P (hd (dropWhile P xs))"
  by (induction xs) auto

lemma sub_spaces_head:
  "zs = [] \<or> \<not> is_space (hd zs) \<Longrightarrow> sub_spaces zs = [] \<or> \<not> is_space (hd (sub_spaces zs))"
  by (cases zs) auto

lemma collapsed_sub_spaces: "collapsed (sub_spaces xs)"
proof (induction xs rule: sub_spaces.induct)
  case 1
  show ?case by simp
next
  case (2 c cs)
  show ?case
  proof (cases "is_space c")
    case True
    with 2 have "collapsed (sub_spaces (dropWhile is_space cs))" by simp
    moreover have "sub_spaces (dropWhile is_space cs) = []
        \<or> \<not> is_space (hd (sub_spaces (dropWhile is_space cs)))"
      by (rule sub_spaces_head) (rule dropWhile_head)
    ultimately show ?thesis using True by auto
  next
    case False
    with 2 show ?thesis by simp
  qed
qed

lemma sub_spaces_collapsed: "collapsed ys \<Longrightarrow> sub_spaces ys = ys"
proof (induction ys)
  case Nil
  show ?case by simp
next
  case (Cons c zs)
  then have z: "sub_spaces zs = zs" by simp
  show ?case
  proof (cases "is_space c")
    case True
    with Cons.prems have c: "c = 32" and h: "zs = [] \<or> \<not> is_space (hd zs)" by auto
    from h have "dropWhile is_space zs = zs" by (cases zs) auto
    with True c z show ?thesis by simp
  next
    case False
    with z show ?thesis by simp
  qed
qed

lemma collapsed_append: "collapsed (xs @ ys) \<Longrightarrow> collapsed xs \<and> collapsed ys"
proof (induction xs)
  case Nil
  then show ?case by simp
next
  case (Cons c zs)
  then show ?case by (cases zs) auto
qed

lemma rev_dropWhile_split:
  "d = rev (dropWhile P (rev d)) @ rev (takeWhile P (rev d))"
proof -
  have "rev (dropWhile P (rev d)) @ rev (takeWhile P (rev d))
      = rev (takeWhile P (rev d) @ dropWhile P (rev d))"
    by (simp only: rev_append)
  also have "\<dots> = rev (rev d)" by (simp only: takeWhile_dropWhile_id)
  also have "\<dots> = d" by simp
  finally show ?thesis by simp
qed

lemma py_strip_decomp: "\<exists>a b. xs = a @ py_strip xs @ b"
proof -
  let ?d = "dropWhile is_space xs"
  have 1: "xs = takeWhile is_space xs @ ?d" by simp
  have 2: "?d = py_strip xs @ rev (takeWhile is_space (rev ?d))"
    unfolding py_strip_def by (rule rev_dropWhile_split)
  from 1 2 have "xs = takeWhile is_space xs @ py_strip xs @ rev (takeWhile is_space (rev ?d))"
    by simp
  then show ?thesis by blast
qed

lemma collapsed_py_strip: "collapsed xs \<Longrightarrow> collapsed (py_strip xs)"
proof -
  assume c: "collapsed xs"
  obtain a b where "xs = a @ py_strip xs @ b" using py_strip_decomp by blast
  with c have "collapsed (a @ py_strip xs @ b)" by simp
  then show ?thesis using collapsed_append by blast
qed

lemma set_py_strip: "set (py_strip xs) \<subseteq> set xs"
proof -
  obtain a b where "xs = a @ py_strip xs @ b" using py_strip_decomp by blast
  then have "set xs = set a \<union> set (py_strip xs) \<union> set b" by (metis set_append Un_assoc)
  then show ?thesis by blast
qed

lemma rstrip_prefix_head:
  assumes "d = [] \<or> \<not> P (hd d)"
  shows "dropWhile P (rev (dropWhile P (rev d))) = rev (dropWhile P (rev d))"
proof (cases "rev (dropWhile P (rev d))")
  case Nil
  show ?thesis unfolding Nil by simp
next
  case (Cons x xs)
  have "d = rev (dropWhile P (rev d)) @ rev (takeWhile P (rev d))"
    by (rule rev_dropWhile_split)
  then have "d = (x # xs) @ rev (takeWhile P (rev d))" unfolding Cons .
  then have "hd d = x" "d \<noteq> []" by (metis append_Cons list.sel(1), auto)
  with assms have "\<not> P x" by auto
  then show ?thesis unfolding Cons by simp
qed

lemma py_strip_idem: "py_strip (py_strip xs) = py_strip xs"
proof -
  let ?d = "dropWhile is_space xs"
  have h: "dropWhile is_space (py_strip xs) = py_strip xs"
    unfolding py_strip_def by (rule rstrip_prefix_head) (rule dropWhile_head)
  have "rev (py_strip xs) = dropWhile is_space (rev ?d)" by (simp add: py_strip_def)
  then have "dropWhile is_space (rev (py_strip xs)) = rev (py_strip xs)"
    by (simp add: dropWhile_idem)
  then have "rev (dropWhile is_space (rev (py_strip xs))) = py_strip xs" by simp
  with h show ?thesis by (simp add: py_strip_def [of "py_strip xs"])
qed

lemma set_sub_spaces: "c \<in> set (sub_spaces xs) \<Longrightarrow> c = 32 \<or> (c \<in> set xs \<and> \<not> is_space c)"
proof (induction xs rule: sub_spaces.induct)
  case 1
  then show ?case by simp
next
  case (2 d cs)
  show ?case
  proof (cases "is_space d")
    case True
    with 2 have "c = 32 \<or> c = 32 \<or> (c \<in> set (dropWhile is_space cs) \<and> \<not> is_space c)" by auto
    then show ?thesis using set_dropWhileD [of c is_space cs] by auto
  next
    case False
    with 2 show ?thesis by auto
  qed
qed

lemma normal_chars:
  assumes "c = 32 \<or> (is_kept c \<and> \<not> is_space c)"
  shows "c \<noteq> 60" "c \<noteq> 58" "is_kept c"
  using assms by (auto simp: is_kept_def is_space_def is_letter_def is_digit_def)

lemma normal_pipeline:
  "normal (py_strip (sub_spaces (sub_special xs)))"
proof -
  let ?k = "sub_special xs"
  have "c = 32 \<or> (is_kept c \<and> \<not> is_space c)" if "c \<in> set (py_strip (sub_spaces ?k))" for c
  proof -
    from that have "c \<in> set (sub_spaces ?k)" using set_py_strip by blast
    then have "c = 32 \<or> (c \<in> set ?k \<and> \<not> is_space c)" by (rule set_sub_spaces)
    then show ?thesis by (auto simp: sub_special_def)
  qed
  then show ?thesis
    by (simp add: normal_def collapsed_py_strip collapsed_sub_spaces py_strip_idem)
qed

lemma normal_fixed:
  assumes "normal ys"
  shows "py_strip (sub_spaces (sub_special (sub_urls (sub_tags ys)))) = ys"
proof -
  from assms have ch: "\<forall>c \<in> set ys. c = 32 \<or> (is_kept c \<and> \<not> is_space c)"
    and col: "collapsed ys" and st: "py_strip ys = ys"
    by (simp_all add: normal_def)
  have "60 \<notin> set ys" using ch normal_chars(1) by blast
  then have 1: "sub_tags ys = ys" by (rule sub_tags_id)
  have "58 \<notin> set ys" using ch normal_chars(2) by blast
  then have 2: "sub_urls ys = ys" by (rule sub_urls_id)
  have "\<forall>c \<in> set ys. is_kept c" using ch normal_chars(3) by blast
  then have 3: "sub_special ys = ys" by (rule sub_special_id)
  have 4: "sub_spaces ys = ys" using col by (rule sub_spaces_collapsed)
  show ?thesis by (simp add: 1 2 3 4 st)
qed

text \<open>
  Claim C6. \<open>clean_text\<close> is a function of its argument alone, defined on every
  argument (each of its loops terminates); it returns the empty string on \<open>None\<close> and
  on the empty string; and it is idempotent.
\<close>

theorem clean_text_idempotent:
  "clean_text None = []
   \<and> clean_text (Some []) = []
   \<and> clean_text (Some (clean_text x)) = clean_text x"
proof -
  have "clean_text (Some (clean_text x)) = clean_text x"
  proof (cases x)
    case None
    then show ?thesis by (simp add: clean_text_def)
  next
    case (Some t)
    show ?thesis
    proof (cases "t = []")
      case True
      with Some show ?thesis by (simp add: clean_text_def)
    next
      case False
      let ?y = "py_strip (sub_spaces (sub_special (sub_urls (sub_tags t))))"
      have y: "clean_text x = ?y" using Some False by (simp add: clean_text_def)
      have "normal ?y" by (rule normal_pipeline)
      then have "py_strip (sub_spaces (sub_special (sub_urls (sub_tags ?y)))) = ?y"
        by (rule normal_fixed)
      then have "clean_text (Some ?y) = ?y" by (simp add: clean_text_def)
      with y show ?thesis by simp
    qed
  qed
  then show ?thesis by (simp add: clean_text_def)
qed

theorem clean_text_idempotent_witness:
  "clean_text (Some (ascii ''<b>Hi</b>  see http://a.b/c?d=1 now!! '')) = ascii ''Hi see now''
   \<and> clean_text (Some (ascii ''Hi see now'')) = ascii ''Hi see now''"
  using clean_text_idempotent [of "Some (ascii ''<b>Hi</b>  see http://a.b/c?d=1 now!! '')"]
  by (simp add: clean_text_def ascii_def match_tag_def match_url_def sub_special_def
      py_strip_def is_space_def is_kept_def is_letter_def is_digit_def is_url_char_def)

end
